theory Spec2Isabelle
  imports Main "HOL-Library.Word"
begin

unbundle bit_operations_syntax

section \<open>bare-mpv: the native binding between libmpv and the JavaScript host\<close>

text \<open>
  The binding (\<^verbatim>\<open>packages/bare-mpv/binding.cc\<close>) is glue between two foreign libraries:
  libmpv and the host's \<^verbatim>\<open>js.h\<close> embedding API. Neither library is part of the
  repository, so the model keeps them outside too:
  \<^item> what the two libraries answer during one invocation of an exported function is a
    record of responses, over which every theorem quantifies;
  \<^item> what the binding asks of libmpv and of the C allocator is appended to a trace of
    native calls, in program order;
  \<^item> the memory the binding owns (the two handle structs, the pixel buffer, the frames
    handed to script code) is an explicit store, passed through every function.
\<close>

subsection \<open>Data\<close>

type_synonym addr = nat
type_synonym byte = "8 word"

text \<open>A C \<^verbatim>\<open>double\<close> is only carried across the boundary: its IEEE-754 bit pattern.\<close>
type_synonym double = "64 word"

text \<open>A C pointer is \<open>None\<close> when it is \<^verbatim>\<open>NULL\<close>.\<close>
type_synonym pointer = "addr option"

record bare_mpv_handle_t =
  mpv :: pointer

record bare_mpv_render_t =
  ctx :: pointer
  width :: int
  height :: int
  buffer :: pointer

text \<open>
  Script values, as far as the binding builds or inspects them. A number made by
  \<^verbatim>\<open>js_create_double\<close> and one made by \<^verbatim>\<open>js_create_int32\<close> are both numbers for
  \<^verbatim>\<open>js_typeof\<close>. An array buffer is named by its identity; a \<^verbatim>\<open>Uint8Array\<close> is a view
  of an array buffer with a length.
\<close>

datatype js_value =
    Js_undefined
  | Js_null
  | Js_boolean bool
  | Js_double double
  | Js_int32 int
  | Js_string string
  | Js_symbol
  | Js_object
  | Js_function
  | Js_external
  | Js_bigint
  | Js_arraybuffer addr
  | Js_uint8array addr nat

text \<open>The enumeration \<^verbatim>\<open>js_value_type_t\<close> of the host's header \<^verbatim>\<open>js.h\<close>.\<close>

datatype js_value_type_t =
    js_undefined
  | js_null
  | js_boolean
  | js_number
  | js_string
  | js_symbol
  | js_object
  | js_function
  | js_external
  | js_bigint

fun js_typeof :: "js_value \<Rightarrow> js_value_type_t" where
  "js_typeof Js_undefined = js_undefined"
| "js_typeof Js_null = js_null"
| "js_typeof (Js_boolean b) = js_boolean"
| "js_typeof (Js_double d) = js_number"
| "js_typeof (Js_int32 n) = js_number"
| "js_typeof (Js_string s) = js_string"
| "js_typeof Js_symbol = js_symbol"
| "js_typeof Js_object = js_object"
| "js_typeof Js_function = js_function"
| "js_typeof Js_external = js_external"
| "js_typeof Js_bigint = js_bigint"
| "js_typeof (Js_arraybuffer a) = js_object"
| "js_typeof (Js_uint8array a n) = js_object"

text \<open>The property formats of \<^verbatim>\<open>mpv/client.h\<close> that the binding uses, and the data sent with a setter.\<close>

datatype mpv_format = MPV_FORMAT_STRING | MPV_FORMAT_FLAG | MPV_FORMAT_DOUBLE

datatype mpv_data = Data_flag int | Data_double double

text \<open>One entry of the trace for every call into libmpv and into the C allocator.\<close>

datatype native_call =
    Mpv_create
  | Mpv_destroy pointer
  | Mpv_set_option_string pointer string string
  | Mpv_initialize pointer
  | Mpv_terminate_destroy pointer
  | Mpv_command pointer "string list"
  | Mpv_get_property pointer string mpv_format
  | Mpv_set_property pointer string mpv_data
  | Mpv_set_property_string pointer string string
  | Mpv_free
  | Mpv_render_context_create pointer
  | Mpv_render_context_render pointer int int int pointer
  | Mpv_render_context_free pointer
  | Mpv_render_context_update pointer
  | C_malloc nat
  | C_free pointer

text \<open>
  The answers of the two libraries during one invocation. An \<open>err\<close> field is the return
  value of the host call of that name; the binding tests it against \<open>0\<close>. A getter answers
  with its status and with what it left in the out-parameter.
\<close>

record responses =
  js_get_callback_info_err :: int
  js_get_arraybuffer_info_err :: int
  js_get_array_length_err :: int
  js_create_arraybuffer_err :: int
  js_create_typedarray_err :: int
  js_number_as_double :: "int \<Rightarrow> double"
  mpv_create_ret :: pointer
  mpv_initialize_ret :: int
  mpv_command_ret :: int
  mpv_get_double :: "int \<times> double"
  mpv_get_flag :: "int \<times> int"
  mpv_get_string :: "int \<times> string option"
  mpv_set_property_ret :: int
  mpv_set_property_string_ret :: int
  mpv_render_context_create_ret :: "int \<times> pointer"
  mpv_render_context_render_ret :: "int \<times> (nat \<Rightarrow> byte)"
  mpv_render_context_update_ret :: "64 word"
  malloc_ret :: pointer

text \<open>
  The store. Every array buffer has an identity, handed out in increasing order by
  \<^verbatim>\<open>js_create_arraybuffer\<close>; what it holds is looked up by that identity, in the store of
  its kind. A block of the C heap is read by offset.
\<close>

record world =
  engine_mem :: "addr \<Rightarrow> bare_mpv_handle_t"
  render_mem :: "addr \<Rightarrow> bare_mpv_render_t"
  frame_mem :: "addr \<Rightarrow> byte list"
  c_heap :: "addr \<Rightarrow> nat \<Rightarrow> byte"
  next_arraybuffer :: addr
  calls :: "native_call list"
  pending_exception :: "string option"

subsection \<open>C arithmetic and strings\<close>

text \<open>\<^verbatim>\<open>int\<close> is 32 bits wide and wraps; \<^verbatim>\<open>size_t\<close> is 64 bits wide.\<close>

definition int32 :: "int \<Rightarrow> int" where
  "int32 x = (x + 2 ^ 31) mod 2 ^ 32 - 2 ^ 31"

definition size_t_of_int :: "int \<Rightarrow> nat" where
  "size_t_of_int x = nat (x mod 2 ^ 64)"

text \<open>\<^verbatim>\<open>w * h * 4\<close> on \<^verbatim>\<open>int\<close>, converted to \<^verbatim>\<open>size_t\<close> by the allocation and by the copy.\<close>

definition buffer_size :: "int \<Rightarrow> int \<Rightarrow> nat" where
  "buffer_size w h = size_t_of_int (int32 (int32 (w * h) * 4))"

text \<open>What a C function reads from \<^verbatim>\<open>std::string::c_str\<close>: the bytes before the first NUL.\<close>

definition c_str :: "string \<Rightarrow> string" where
  "c_str s = takeWhile (\<lambda>c. c \<noteq> CHR 0x00) s"

text \<open>\<^verbatim>\<open>MPV_RENDER_UPDATE_FRAME\<close> of \<^verbatim>\<open>mpv/render.h\<close> is bit 0.\<close>

definition MPV_RENDER_UPDATE_FRAME :: "64 word" where
  "MPV_RENDER_UPDATE_FRAME = 1"

subsection \<open>The two libraries, seen from the binding\<close>

definition native :: "native_call \<Rightarrow> world \<Rightarrow> world" where
  "native c w = w\<lparr>calls := calls w @ [c]\<rparr>"

definition js_throw_error :: "string \<Rightarrow> world \<Rightarrow> world" where
  "js_throw_error msg w = w\<lparr>pending_exception := Some msg\<rparr>"

definition js_create_arraybuffer :: "responses \<Rightarrow> world \<Rightarrow> int \<times> addr \<times> world" where
  "js_create_arraybuffer orc w =
     (if js_create_arraybuffer_err orc \<noteq> 0
      then (js_create_arraybuffer_err orc, next_arraybuffer w, w)
      else (0, next_arraybuffer w, w\<lparr>next_arraybuffer := Suc (next_arraybuffer w)\<rparr>))"

text \<open>
  Unboxing. The binding unboxes the value argument of \<^verbatim>\<open>setProperty\<close> only after
  \<^verbatim>\<open>js_typeof\<close> has told its type, so the last equation of each function is never
  reached from there. Turning a number made from an \<^verbatim>\<open>int32\<close> into a \<^verbatim>\<open>double\<close> is
  the host's arithmetic, one of its responses.
\<close>

fun js_get_value_double :: "responses \<Rightarrow> js_value \<Rightarrow> double" where
  "js_get_value_double orc (Js_double d) = d"
| "js_get_value_double orc (Js_int32 n) = js_number_as_double orc n"
| "js_get_value_double orc v = 0"

fun js_get_value_bool :: "js_value \<Rightarrow> bool" where
  "js_get_value_bool (Js_boolean b) = b"
| "js_get_value_bool v = False"

fun js_get_value_string_utf8 :: "js_value \<Rightarrow> string" where
  "js_get_value_string_utf8 (Js_string s) = s"
| "js_get_value_string_utf8 v = []"

text \<open>\<^verbatim>\<open>memcpy\<close> of \<open>n\<close> bytes out of a block of the C heap.\<close>

definition memcpy_from :: "(nat \<Rightarrow> byte) \<Rightarrow> nat \<Rightarrow> byte list" where
  "memcpy_from block n = map block [0..<n]"

subsection \<open>The exported functions\<close>

text \<open>
  Each function takes the responses of the libraries, its arguments as the host delivers
  them (a handle is the identity of the array buffer that holds the struct, a property
  name or a command word is a script string, a dimension is the \<^verbatim>\<open>int32\<close> the host read)
  and the world; it returns the \<^verbatim>\<open>js_value_t *\<close> it hands back, \<open>None\<close> for \<^verbatim>\<open>NULL\<close>, and the
  world it leaves.
\<close>

definition bare_mpv_create :: "responses \<Rightarrow> world \<Rightarrow> js_value option \<times> world" where
  "bare_mpv_create orc w0 =
     (let w1 = native Mpv_create w0;
          m = mpv_create_ret orc
      in if m = None
         then (None, js_throw_error ''Failed to create mpv instance'' w1)
         else
           (case js_create_arraybuffer orc w1 of
              (err, handle, w2) \<Rightarrow>
                if err \<noteq> 0
                then (None, native (Mpv_destroy m) w2)
                else (Some (Js_arraybuffer handle),
                      w2\<lparr>engine_mem := (engine_mem w2)(handle := \<lparr>mpv = m\<rparr>)\<rparr>)))"


definition bare_mpv_destroy :: "responses \<Rightarrow> addr \<Rightarrow> world \<Rightarrow> js_value option \<times> world" where
  "bare_mpv_destroy orc handle w0 =
     (if js_get_callback_info_err orc \<noteq> 0 then (None, w0)
      else if js_get_arraybuffer_info_err orc \<noteq> 0 then (None, w0)
      else
        let m = mpv (engine_mem w0 handle)
        in if m \<noteq> None
           then
             let w1 = native (Mpv_terminate_destroy m) w0
             in (None, w1\<lparr>engine_mem := (engine_mem w1)(handle := (engine_mem w1 handle)\<lparr>mpv := None\<rparr>)\<rparr>)
           else (None, w0))"


definition bare_mpv_get_property ::
  "responses \<Rightarrow> addr \<Rightarrow> string \<Rightarrow> world \<Rightarrow> js_value option \<times> world" where
  "bare_mpv_get_property orc handle name_arg w0 =
     (if js_get_callback_info_err orc \<noteq> 0 then (None, w0)
      else if js_get_arraybuffer_info_err orc \<noteq> 0 then (None, w0)
      else
        let m = mpv (engine_mem w0 handle);
            name = c_str name_arg;
            w1 = native (Mpv_get_property m name MPV_FORMAT_DOUBLE) w0
        in case mpv_get_double orc of
             (status, value) \<Rightarrow>
               if 0 \<le> status then (Some (Js_double value), w1)
               else
                 let w2 = native (Mpv_get_property m name MPV_FORMAT_FLAG) w1
                 in case mpv_get_flag orc of
                      (status, flag) \<Rightarrow>
                        if 0 \<le> status then (Some (Js_boolean (flag \<noteq> 0)), w2)
                        else
                          let w3 = native (Mpv_get_property m name MPV_FORMAT_STRING) w2
                          in case mpv_get_string orc of
                               (status, str) \<Rightarrow>
                                 if 0 \<le> status \<and> str \<noteq> None
                                 then (Some (Js_string (the str)), native Mpv_free w3)
                                 else (Some Js_undefined, w3))"

definition bare_mpv_set_property ::
  "responses \<Rightarrow> addr \<Rightarrow> string \<Rightarrow> js_value \<Rightarrow> world \<Rightarrow> js_value option \<times> world" where
  "bare_mpv_set_property orc handle name_arg value_arg w0 =
     (if js_get_callback_info_err orc \<noteq> 0 then (None, w0)
      else if js_get_arraybuffer_info_err orc \<noteq> 0 then (None, w0)
      else
        let m = mpv (engine_mem w0 handle);
            name = c_str name_arg;
            value_type = js_typeof value_arg;
            (status, w1) =
              (if value_type = js_number then
                 let value = js_get_value_double orc value_arg
                 in (mpv_set_property_ret orc,
                     native (Mpv_set_property m name (Data_double value)) w0)
               else if value_type = js_boolean then
                 let value = js_get_value_bool value_arg;
                     flag = (if value then 1 else 0)
                 in (mpv_set_property_ret orc,
                     native (Mpv_set_property m name (Data_flag flag)) w0)
               else if value_type = js_string then
                 let str = c_str (js_get_value_string_utf8 value_arg)
                 in (mpv_set_property_string_ret orc,
                     native (Mpv_set_property_string m name str) w0)
               else (- 1, w0))
        in (Some (Js_int32 status), w1))"

definition bare_mpv_render_create ::
  "responses \<Rightarrow> addr \<Rightarrow> int \<Rightarrow> int \<Rightarrow> world \<Rightarrow> js_value option \<times> world" where
  "bare_mpv_render_create orc mpv_handle w h w0 =
     (if js_get_callback_info_err orc \<noteq> 0 then (None, w0)
      else if js_get_arraybuffer_info_err orc \<noteq> 0 then (None, w0)
      else
        let w1 = native (Mpv_render_context_create (mpv (engine_mem w0 mpv_handle))) w0
        in case mpv_render_context_create_ret orc of
             (status, render_ctx) \<Rightarrow>
               if status < 0
               then (None, js_throw_error ''Failed to create render context'' w1)
               else
                 (case js_create_arraybuffer orc w1 of
                    (err, handle, w2) \<Rightarrow>
                      if err \<noteq> 0
                      then (None, native (Mpv_render_context_free render_ctx) w2)
                      else
                        let w3 = native (C_malloc (buffer_size w h)) w2
                        in (Some (Js_arraybuffer handle),
                            w3\<lparr>render_mem := (render_mem w3)
                                 (handle := \<lparr>ctx = render_ctx, width = w, height = h,
                                             buffer = malloc_ret orc\<rparr>)\<rparr>)))"

definition bare_mpv_render_frame :: "responses \<Rightarrow> addr \<Rightarrow> world \<Rightarrow> js_value option \<times> world" where
  "bare_mpv_render_frame orc handle w0 =
     (if js_get_callback_info_err orc \<noteq> 0 then (None, w0)
      else if js_get_arraybuffer_info_err orc \<noteq> 0 then (None, w0)
      else
        let r = render_mem w0 handle
        in if ctx r = None \<or> buffer r = None then (Some Js_null, w0)
           else
             let w = width r;
                 h = height r;
                 pitch = int32 (w * 4);
                 w1 = native (Mpv_render_context_render (ctx r) w h pitch (buffer r)) w0
             in case mpv_render_context_render_ret orc of
                  (status, pixels) \<Rightarrow>
                    let w2 = w1\<lparr>c_heap := (c_heap w1)(the (buffer r) := pixels)\<rparr>
                    in if status < 0 then (Some Js_null, w2)
                       else
                         let size = buffer_size w h
                         in case js_create_arraybuffer orc w2 of
                              (err, arraybuffer, w3) \<Rightarrow>
                                if err \<noteq> 0 then (None, w3)
                                else
                                  let w4 = w3\<lparr>frame_mem := (frame_mem w3)
                                             (arraybuffer := memcpy_from (c_heap w3 (the (buffer r))) size)\<rparr>
                                  in if js_create_typedarray_err orc \<noteq> 0
                                     then (Some (Js_arraybuffer arraybuffer), w4)
                                     else (Some (Js_uint8array arraybuffer size), w4))"

definition bare_mpv_render_free :: "responses \<Rightarrow> addr \<Rightarrow> world \<Rightarrow> js_value option \<times> world" where
  "bare_mpv_render_free orc handle w0 =
     (if js_get_callback_info_err orc \<noteq> 0 then (None, w0)
      else if js_get_arraybuffer_info_err orc \<noteq> 0 then (None, w0)
      else
        let w1 =
              (if ctx (render_mem w0 handle) \<noteq> None
               then
                 let w = native (Mpv_render_context_free (ctx (render_mem w0 handle))) w0
                 in w\<lparr>render_mem := (render_mem w)(handle := (render_mem w handle)\<lparr>ctx := None\<rparr>)\<rparr>
               else w0);
            w2 =
              (if buffer (render_mem w1 handle) \<noteq> None
               then
                 let w = native (C_free (buffer (render_mem w1 handle))) w1
                 in w\<lparr>render_mem := (render_mem w)(handle := (render_mem w handle)\<lparr>buffer := None\<rparr>)\<rparr>
               else w1)
        in (None, w2))"

definition bare_mpv_render_update :: "responses \<Rightarrow> addr \<Rightarrow> world \<Rightarrow> js_value option \<times> world" where
  "bare_mpv_render_update orc handle w0 =
     (if js_get_callback_info_err orc \<noteq> 0 then (None, w0)
      else if js_get_arraybuffer_info_err orc \<noteq> 0 then (None, w0)
      else
        let w1 = native (Mpv_render_context_update (ctx (render_mem w0 handle))) w0;
            flags = mpv_render_context_update_ret orc;
            needs_render = (flags AND MPV_RENDER_UPDATE_FRAME \<noteq> 0)
        in (Some (Js_boolean needs_render), w1))"

subsection \<open>Scripts over one render handle\<close>

text \<open>
  What script code can do with a render handle once it has it: any sequence of
  \<^verbatim>\<open>renderFrame\<close>, \<^verbatim>\<open>renderUpdate\<close> and \<^verbatim>\<open>renderFree\<close>, each with its own responses.
\<close>

datatype render_op = RenderFrame | RenderUpdate | RenderFree

fun render_step :: "render_op \<times> responses \<times> addr \<Rightarrow> world \<Rightarrow> world" where
  "render_step (RenderFrame, orc, handle) w = snd (bare_mpv_render_frame orc handle w)"
| "render_step (RenderUpdate, orc, handle) w = snd (bare_mpv_render_update orc handle w)"
| "render_step (RenderFree, orc, handle) w = snd (bare_mpv_render_free orc handle w)"

fun render_run :: "(render_op \<times> responses \<times> addr) list \<Rightarrow> world \<Rightarrow> world" where
  "render_run [] w = w"
| "render_run (s # ss) w = render_run ss (render_step s w)"

definition dimensions :: "world \<Rightarrow> addr \<Rightarrow> int \<times> int" where
  "dimensions w a = (width (render_mem w a), height (render_mem w a))"

subsection \<open>The property read, as the specification words it\<close>

text \<open>
  The specification describes \<^verbatim>\<open>getProperty\<close> as a priority list of representations:
  the first one that the engine accepts (status at least \<open>0\<close>) is returned, and the
  absent value if there is none. \<open>first_accepted\<close> is that description;
  \<open>probed_formats\<close> lists the formats asked for on the way. The engine hands a string
  back through a pointer; \<open>boxed_string\<close> is the script value made of it, the absent
  value when there is no string.
\<close>

fun first_accepted :: "(int \<times> js_value) list \<Rightarrow> js_value" where
  "first_accepted [] = Js_undefined"
| "first_accepted ((status, v) # ps) = (if 0 \<le> status then v else first_accepted ps)"

fun probed_formats :: "(int \<times> mpv_format) list \<Rightarrow> mpv_format list" where
  "probed_formats [] = []"
| "probed_formats ((status, f) # ps) = f # (if 0 \<le> status then [] else probed_formats ps)"

definition boxed_string :: "string option \<Rightarrow> js_value" where
  "boxed_string str = (case str of None \<Rightarrow> Js_undefined | Some s \<Rightarrow> Js_string s)"

subsection \<open>Concrete inputs\<close>

text \<open>
  Libraries that accept everything except property reads, an empty world, and the world
  after \<^verbatim>\<open>create()\<close> and \<^verbatim>\<open>renderCreate(handle, 2, 1)\<close>: the engine handle is array
  buffer \<open>0\<close>, the render handle array buffer \<open>1\<close>.
\<close>

definition idle_responses :: responses where
  "idle_responses =
     \<lparr>js_get_callback_info_err = 0, js_get_arraybuffer_info_err = 0,
      js_get_array_length_err = 0, js_create_arraybuffer_err = 0,
      js_create_typedarray_err = 0, js_number_as_double = (\<lambda>n. 0),
      mpv_create_ret = Some 1, mpv_initialize_ret = 0, mpv_command_ret = 0,
      mpv_get_double = (- 8, 0), mpv_get_flag = (- 8, 0), mpv_get_string = (- 8, None),
      mpv_set_property_ret = 0, mpv_set_property_string_ret = 0,
      mpv_render_context_create_ret = (0, Some 2),
      mpv_render_context_render_ret = (0, (\<lambda>i. 0)),
      mpv_render_context_update_ret = 0, malloc_ret = Some 3\<rparr>"

definition start_world :: world where
  "start_world =
     \<lparr>engine_mem = (\<lambda>a. \<lparr>mpv = None\<rparr>),
      render_mem = (\<lambda>a. \<lparr>ctx = None, width = 0, height = 0, buffer = None\<rparr>),
      frame_mem = (\<lambda>a. []), c_heap = (\<lambda>a i. 0), next_arraybuffer = 0,
      calls = [], pending_exception = None\<rparr>"

definition rendering_world :: world where
  "rendering_world =
     snd (bare_mpv_render_create idle_responses 0 2 1
            (snd (bare_mpv_create idle_responses start_world)))"

text \<open>
  The same after \<^verbatim>\<open>renderCreate(handle, 42949673, 50)\<close>: the product
  \<open>42949673 * 50 * 4\<close> does not fit an \<^verbatim>\<open>int\<close>.
\<close>

definition overflowing_world :: world where
  "overflowing_world =
     snd (bare_mpv_render_create idle_responses 0 42949673 50
            (snd (bare_mpv_create idle_responses start_world)))"

section \<open>Properties\<close>

subsection \<open>Auxiliary facts\<close>

lemma rendering_world_eq:
  "rendering_world =
     \<lparr>engine_mem = (\<lambda>a. \<lparr>mpv = None\<rparr>)(0 := \<lparr>mpv = Some 1\<rparr>),
      render_mem = (\<lambda>a. \<lparr>ctx = None, width = 0, height = 0, buffer = None\<rparr>)
                     (1 := \<lparr>ctx = Some 2, width = 2, height = 1, buffer = Some 3\<rparr>),
      frame_mem = (\<lambda>a. []), c_heap = (\<lambda>a i. 0), next_arraybuffer = 2,
      calls = [Mpv_create, Mpv_render_context_create (Some 1), C_malloc 8],
      pending_exception = None\<rparr>"
  by (simp add: rendering_world_def bare_mpv_render_create_def bare_mpv_create_def
      js_create_arraybuffer_def native_def idle_responses_def start_world_def
      buffer_size_def int32_def size_t_of_int_def)

lemma overflowing_world_eq:
  "overflowing_world =
     \<lparr>engine_mem = (\<lambda>a. \<lparr>mpv = None\<rparr>)(0 := \<lparr>mpv = Some 1\<rparr>),
      render_mem = (\<lambda>a. \<lparr>ctx = None, width = 0, height = 0, buffer = None\<rparr>)
                     (1 := \<lparr>ctx = Some 2, width = 42949673, height = 50, buffer = Some 3\<rparr>),
      frame_mem = (\<lambda>a. []), c_heap = (\<lambda>a i. 0), next_arraybuffer = 2,
      calls = [Mpv_create, Mpv_render_context_create (Some 1), C_malloc 8],
      pending_exception = None\<rparr>"
  by (simp add: overflowing_world_def bare_mpv_render_create_def bare_mpv_create_def
      js_create_arraybuffer_def native_def idle_responses_def start_world_def
      buffer_size_def int32_def size_t_of_int_def)

lemma idle_responses_simps:
  "js_get_callback_info_err idle_responses = 0"
  "js_get_arraybuffer_info_err idle_responses = 0"
  "js_get_array_length_err idle_responses = 0"
  "js_create_arraybuffer_err idle_responses = 0"
  "js_create_typedarray_err idle_responses = 0"
  "mpv_render_context_render_ret idle_responses = (0, \<lambda>i. 0)"
  by (simp_all add: idle_responses_def)

lemma rendering_world_simps:
  "ctx (render_mem rendering_world (Suc 0)) = Some 2"
  "buffer (render_mem rendering_world (Suc 0)) = Some 3"
  "width (render_mem rendering_world (Suc 0)) = 2"
  "height (render_mem rendering_world (Suc 0)) = 1"
  "next_arraybuffer rendering_world = 2"
  "pending_exception rendering_world = None"
  by (simp_all add: rendering_world_eq)

lemma overflowing_world_simps:
  "ctx (render_mem overflowing_world (Suc 0)) = Some 2"
  "buffer (render_mem overflowing_world (Suc 0)) = Some 3"
  "width (render_mem overflowing_world (Suc 0)) = 42949673"
  "height (render_mem overflowing_world (Suc 0)) = 50"
  "next_arraybuffer overflowing_world = 2"
  by (simp_all add: overflowing_world_eq)

lemma buffer_size_exact:
  assumes "0 \<le> w * h * 4" and "w * h * 4 < 2 ^ 31"
  shows "buffer_size w h = nat (w * h * 4)"
proof -
  have wh: "0 \<le> w * h" "w * h < 2 ^ 31" using assms by linarith+
  have "int32 (w * h) = w * h"
    using wh by (simp add: int32_def)
  moreover have "int32 (w * h * 4) = w * h * 4"
    using assms by (simp add: int32_def)
  moreover have "(w * h * 4) mod 2 ^ 64 = w * h * 4"
    using assms by simp
  ultimately show ?thesis
    by (simp add: buffer_size_def size_t_of_int_def)
qed

lemma length_memcpy_from: "length (memcpy_from block n) = n"
  by (simp add: memcpy_from_def)

subsection \<open>Engine handles\<close>

text \<open>
  Claim C8. \<^verbatim>\<open>destroy\<close> always returns nothing. On a delivered handle it terminates the
  engine instance exactly when the handle still holds one, and leaves the reference
  null; a second \<^verbatim>\<open>destroy\<close> on the same handle, whatever the libraries answer then,
  returns nothing and leaves the world as it found it: no second termination.
\<close>

theorem bare_mpv_destroy_idempotent:
  "fst (bare_mpv_destroy orc handle w) = None \<and>
   (js_get_callback_info_err orc = 0 \<and> js_get_arraybuffer_info_err orc = 0 \<longrightarrow>
      calls (snd (bare_mpv_destroy orc handle w)) =
        calls w @ (case mpv (engine_mem w handle) of
                     None \<Rightarrow> [] | Some m \<Rightarrow> [Mpv_terminate_destroy (Some m)]) \<and>
      mpv (engine_mem (snd (bare_mpv_destroy orc handle w)) handle) = None \<and>
      bare_mpv_destroy orc' handle (snd (bare_mpv_destroy orc handle w)) =
        (None, snd (bare_mpv_destroy orc handle w)))"
  by (auto simp: bare_mpv_destroy_def native_def Let_def)

theorem bare_mpv_destroy_idempotent_witness:
  "js_get_callback_info_err idle_responses = 0 \<and>
   js_get_arraybuffer_info_err idle_responses = 0 \<and>
   calls (snd (bare_mpv_destroy idle_responses 0 rendering_world)) =
     [Mpv_create, Mpv_render_context_create (Some 1), C_malloc 8,
      Mpv_terminate_destroy (Some 1)] \<and>
   mpv (engine_mem (snd (bare_mpv_destroy idle_responses 0 rendering_world)) 0) = None \<and>
   bare_mpv_destroy idle_responses 0 (snd (bare_mpv_destroy idle_responses 0 rendering_world)) =
     (None, snd (bare_mpv_destroy idle_responses 0 rendering_world))"
  using bare_mpv_destroy_idempotent [of idle_responses 0 rendering_world idle_responses]
  by (simp add: rendering_world_eq idle_responses_def)

subsection \<open>Property reads and writes\<close>

text \<open>
  Claim C2. On a delivered handle \<^verbatim>\<open>getProperty\<close> returns what the specification's
  priority list returns: the number if the numeric probe is accepted, else the boolean
  if the flag probe is accepted, else the string if the string probe is accepted. The
  probes reach the engine in that order and stop at the first accepted one; the only
  other native call is the release of the engine's string when a string is returned.
  When all three probes fail the result is the absent value, and no exception is left
  pending in any case.
\<close>

theorem get_property_probe_order:
  assumes "js_get_callback_info_err orc = 0" and "js_get_arraybuffer_info_err orc = 0"
  shows "fst (bare_mpv_get_property orc handle name w) =
       Some (first_accepted
              [(fst (mpv_get_double orc), Js_double (snd (mpv_get_double orc))),
               (fst (mpv_get_flag orc), Js_boolean (snd (mpv_get_flag orc) \<noteq> 0)),
               (fst (mpv_get_string orc), boxed_string (snd (mpv_get_string orc)))]) \<and>
     calls (snd (bare_mpv_get_property orc handle name w)) =
       calls w @
       map (Mpv_get_property (mpv (engine_mem w handle)) (c_str name))
         (probed_formats
            [(fst (mpv_get_double orc), MPV_FORMAT_DOUBLE),
             (fst (mpv_get_flag orc), MPV_FORMAT_FLAG),
             (fst (mpv_get_string orc), MPV_FORMAT_STRING)]) @
       (if fst (mpv_get_double orc) < 0 \<and> fst (mpv_get_flag orc) < 0 \<and>
           0 \<le> fst (mpv_get_string orc) \<and> snd (mpv_get_string orc) \<noteq> None
        then [Mpv_free] else []) \<and>
     (fst (mpv_get_double orc) < 0 \<and> fst (mpv_get_flag orc) < 0 \<and> fst (mpv_get_string orc) < 0
        \<longrightarrow> fst (bare_mpv_get_property orc handle name w) = Some Js_undefined) \<and>
     pending_exception (snd (bare_mpv_get_property orc handle name w)) = pending_exception w"
  using assms
  by (auto simp: bare_mpv_get_property_def native_def Let_def boxed_string_def
      split: prod.splits)

theorem get_property_probe_order_witness:
  "js_get_callback_info_err idle_responses = 0 \<and>
   js_get_arraybuffer_info_err idle_responses = 0 \<and>
   fst (mpv_get_double idle_responses) < 0 \<and> fst (mpv_get_flag idle_responses) < 0 \<and>
   fst (mpv_get_string idle_responses) < 0 \<and>
   fst (bare_mpv_get_property idle_responses 0 ''pause'' rendering_world) = Some Js_undefined \<and>
   calls (snd (bare_mpv_get_property idle_responses 0 ''pause'' rendering_world)) =
     [Mpv_create, Mpv_render_context_create (Some 1), C_malloc 8,
      Mpv_get_property (Some 1) ''pause'' MPV_FORMAT_DOUBLE,
      Mpv_get_property (Some 1) ''pause'' MPV_FORMAT_FLAG,
      Mpv_get_property (Some 1) ''pause'' MPV_FORMAT_STRING] \<and>
   fst (bare_mpv_get_property (idle_responses\<lparr>mpv_get_flag := (0, 1)\<rparr>) 0 ''pause'' rendering_world) =
     Some (Js_boolean True)"
  using get_property_probe_order [of idle_responses 0 "''pause''" rendering_world]
    get_property_probe_order
      [of "idle_responses\<lparr>mpv_get_flag := (0, 1)\<rparr>" 0 "''pause''" rendering_world]
  by (simp add: rendering_world_eq idle_responses_def c_str_def)

text \<open>
  Claim C10. On a delivered handle \<^verbatim>\<open>getProperty\<close> returns a string exactly when the two
  earlier probes fail, the string probe reports a status of at least \<open>0\<close> and the engine
  hands back a string; when the string probe reports success with a null pointer the
  result is the absent value.
\<close>

theorem get_property_null_string:
  assumes "js_get_callback_info_err orc = 0" and "js_get_arraybuffer_info_err orc = 0"
  shows "(fst (bare_mpv_get_property orc handle name w) = Some (Js_string s) \<longleftrightarrow>
        fst (mpv_get_double orc) < 0 \<and> fst (mpv_get_flag orc) < 0 \<and>
        0 \<le> fst (mpv_get_string orc) \<and> snd (mpv_get_string orc) = Some s) \<and>
     (fst (mpv_get_double orc) < 0 \<and> fst (mpv_get_flag orc) < 0 \<and>
      0 \<le> fst (mpv_get_string orc) \<and> snd (mpv_get_string orc) = None \<longrightarrow>
        fst (bare_mpv_get_property orc handle name w) = Some Js_undefined)"
  using assms
  by (auto simp: bare_mpv_get_property_def native_def Let_def split: prod.splits)

theorem get_property_null_string_witness:
  "js_get_callback_info_err idle_responses = 0 \<and>
   js_get_arraybuffer_info_err idle_responses = 0 \<and>
   fst (mpv_get_double idle_responses) < 0 \<and> fst (mpv_get_flag idle_responses) < 0 \<and>
   fst (bare_mpv_get_property (idle_responses\<lparr>mpv_get_string := (0, None)\<rparr>) 0 ''path''
          rendering_world) = Some Js_undefined \<and>
   fst (bare_mpv_get_property (idle_responses\<lparr>mpv_get_string := (0, Some ''a.mkv'')\<rparr>) 0 ''path''
          rendering_world) = Some (Js_string ''a.mkv'')"
  using get_property_null_string
      [of "idle_responses\<lparr>mpv_get_string := (0, None)\<rparr>" 0 "''path''" rendering_world "''a.mkv''"]
    get_property_null_string
      [of "idle_responses\<lparr>mpv_get_string := (0, Some ''a.mkv'')\<rparr>" 0 "''path''" rendering_world
         "''a.mkv''"]
  by (simp add: idle_responses_def)

text \<open>
  Claim C3. On a delivered handle, a value that is neither a number, a boolean nor a
  string makes \<^verbatim>\<open>setProperty\<close> return the status \<open>-1\<close> and leave the world untouched: no
  native call. A number, a boolean or a string makes it append exactly one call to the
  trace, the setter of the matching format with the unboxed value, and return the status
  that call answered.
\<close>

theorem set_property_dispatch:
  assumes "js_get_callback_info_err orc = 0" and "js_get_arraybuffer_info_err orc = 0"
  shows "(js_typeof v \<notin> {js_number, js_boolean, js_string} \<longrightarrow>
        bare_mpv_set_property orc handle name v w = (Some (Js_int32 (- 1)), w)) \<and>
     (js_typeof v = js_number \<longrightarrow>
        fst (bare_mpv_set_property orc handle name v w) = Some (Js_int32 (mpv_set_property_ret orc)) \<and>
        calls (snd (bare_mpv_set_property orc handle name v w)) =
          calls w @ [Mpv_set_property (mpv (engine_mem w handle)) (c_str name)
                       (Data_double (js_get_value_double orc v))]) \<and>
     (js_typeof v = js_boolean \<longrightarrow>
        fst (bare_mpv_set_property orc handle name v w) = Some (Js_int32 (mpv_set_property_ret orc)) \<and>
        calls (snd (bare_mpv_set_property orc handle name v w)) =
          calls w @ [Mpv_set_property (mpv (engine_mem w handle)) (c_str name)
                       (Data_flag (if js_get_value_bool v then 1 else 0))]) \<and>
     (js_typeof v = js_string \<longrightarrow>
        fst (bare_mpv_set_property orc handle name v w) =
          Some (Js_int32 (mpv_set_property_string_ret orc)) \<and>
        calls (snd (bare_mpv_set_property orc handle name v w)) =
          calls w @ [Mpv_set_property_string (mpv (engine_mem w handle)) (c_str name)
                       (c_str (js_get_value_string_utf8 v))])"
  using assms
  by (simp add: bare_mpv_set_property_def native_def Let_def)

theorem set_property_dispatch_witness:
  "js_get_callback_info_err idle_responses = 0 \<and>
   js_get_arraybuffer_info_err idle_responses = 0 \<and>
   js_typeof Js_null \<notin> {js_number, js_boolean, js_string} \<and>
   bare_mpv_set_property idle_responses 0 ''pause'' Js_null rendering_world =
     (Some (Js_int32 (- 1)), rendering_world) \<and>
   js_typeof (Js_double 5) = js_number \<and>
   calls (snd (bare_mpv_set_property idle_responses 0 ''volume'' (Js_double 5) rendering_world)) =
     calls rendering_world @ [Mpv_set_property (Some 1) ''volume'' (Data_double 5)] \<and>
   js_typeof (Js_boolean True) = js_boolean \<and>
   calls (snd (bare_mpv_set_property idle_responses 0 ''pause'' (Js_boolean True) rendering_world)) =
     calls rendering_world @ [Mpv_set_property (Some 1) ''pause'' (Data_flag 1)] \<and>
   js_typeof (Js_string ''no'') = js_string \<and>
   fst (bare_mpv_set_property (idle_responses\<lparr>mpv_set_property_string_ret := - 4\<rparr>) 0 ''mute''
          (Js_string ''no'') rendering_world) = Some (Js_int32 (- 4)) \<and>
   calls (snd (bare_mpv_set_property (idle_responses\<lparr>mpv_set_property_string_ret := - 4\<rparr>) 0
                 ''mute'' (Js_string ''no'') rendering_world)) =
     calls rendering_world @ [Mpv_set_property_string (Some 1) ''mute'' ''no'']"
  using set_property_dispatch [of idle_responses Js_null 0 "''pause''" rendering_world]
    set_property_dispatch [of idle_responses "Js_double 5" 0 "''volume''" rendering_world]
    set_property_dispatch [of idle_responses "Js_boolean True" 0 "''pause''" rendering_world]
    set_property_dispatch [of "idle_responses\<lparr>mpv_set_property_string_ret := - 4\<rparr>"
       "Js_string ''no''" 0 "''mute''" rendering_world]
  by (simp add: rendering_world_eq idle_responses_def c_str_def)

subsection \<open>Render handles\<close>

text \<open>
  Claim C4. On a delivered handle \<^verbatim>\<open>renderFrame\<close> returns the script value \<open>null\<close> in
  exactly two cases: the handle's context or pixel buffer is absent, or the native render
  call answers a negative status. Both cases return the same value. In the first case
  the world is left as it was: the function returns before any native call.
\<close>

theorem render_frame_null_cases:
  assumes "js_get_callback_info_err orc = 0" and "js_get_arraybuffer_info_err orc = 0"
  shows "(fst (bare_mpv_render_frame orc handle w) = Some Js_null \<longleftrightarrow>
        (ctx (render_mem w handle) = None \<or> buffer (render_mem w handle) = None) \<or>
        fst (mpv_render_context_render_ret orc) < 0) \<and>
     (ctx (render_mem w handle) = None \<or> buffer (render_mem w handle) = None \<longrightarrow>
        bare_mpv_render_frame orc handle w = (Some Js_null, w))"
  using assms
  by (auto simp: bare_mpv_render_frame_def js_create_arraybuffer_def native_def Let_def
      split: prod.splits if_splits)

theorem render_frame_null_cases_witness:
  "js_get_callback_info_err idle_responses = 0 \<and>
   js_get_arraybuffer_info_err idle_responses = 0 \<and>
   ctx (render_mem rendering_world 7) = None \<and>
   bare_mpv_render_frame idle_responses 7 rendering_world = (Some Js_null, rendering_world) \<and>
   ctx (render_mem rendering_world 1) \<noteq> None \<and> buffer (render_mem rendering_world 1) \<noteq> None \<and>
   fst (bare_mpv_render_frame
          (idle_responses\<lparr>mpv_render_context_render_ret := (- 1, \<lambda>i. 0)\<rparr>) 1 rendering_world) =
     Some Js_null \<and>
   fst (bare_mpv_render_frame idle_responses 1 rendering_world) \<noteq> Some Js_null"
  using render_frame_null_cases [of idle_responses 7 rendering_world]
    render_frame_null_cases
      [of "idle_responses\<lparr>mpv_render_context_render_ret := (- 1, \<lambda>i. 0)\<rparr>" 1 rendering_world]
    render_frame_null_cases [of idle_responses 1 rendering_world]
  by (simp add: rendering_world_eq idle_responses_def)

text \<open>
  Claim C7. On a delivered handle \<^verbatim>\<open>renderFree\<close> returns nothing, releases the render
  context if the handle holds one and the pixel buffer if the handle holds one, each
  whether or not the other is there, and leaves both references null. A second
  \<^verbatim>\<open>renderFree\<close> on the same handle, whatever the libraries answer then, returns nothing
  and leaves the world as it found it: no release call, no exception, the same handle.
\<close>

theorem bare_mpv_render_free_idempotent:
  assumes "js_get_callback_info_err orc = 0" and "js_get_arraybuffer_info_err orc = 0"
  shows "fst (bare_mpv_render_free orc handle w) = None \<and>
     calls (snd (bare_mpv_render_free orc handle w)) =
       calls w
       @ (case ctx (render_mem w handle) of
            None \<Rightarrow> [] | Some c \<Rightarrow> [Mpv_render_context_free (Some c)])
       @ (case buffer (render_mem w handle) of
            None \<Rightarrow> [] | Some b \<Rightarrow> [C_free (Some b)]) \<and>
     ctx (render_mem (snd (bare_mpv_render_free orc handle w)) handle) = None \<and>
     buffer (render_mem (snd (bare_mpv_render_free orc handle w)) handle) = None \<and>
     bare_mpv_render_free orc' handle (snd (bare_mpv_render_free orc handle w)) =
       (None, snd (bare_mpv_render_free orc handle w))"
  using assms by (auto simp: bare_mpv_render_free_def native_def Let_def)

theorem bare_mpv_render_free_idempotent_witness:
  "js_get_callback_info_err idle_responses = 0 \<and>
   js_get_arraybuffer_info_err idle_responses = 0 \<and>
   calls (snd (bare_mpv_render_free idle_responses 1 rendering_world)) =
     [Mpv_create, Mpv_render_context_create (Some 1), C_malloc 8,
      Mpv_render_context_free (Some 2), C_free (Some 3)] \<and>
   bare_mpv_render_free idle_responses 1 (snd (bare_mpv_render_free idle_responses 1 rendering_world)) =
     (None, snd (bare_mpv_render_free idle_responses 1 rendering_world))"
  using bare_mpv_render_free_idempotent [of idle_responses 1 rendering_world idle_responses]
  by (simp add: rendering_world_eq idle_responses_def)

text \<open>
  Claim C1. The world after \<^verbatim>\<open>renderCreate\<close> and \<^verbatim>\<open>renderFree\<close> on render handle \<open>1\<close>
  holds a null context and a null buffer in that handle. \<^verbatim>\<open>renderUpdate\<close> on it is not
  a no-op: it hands the null context to \<^verbatim>\<open>mpv_render_context_update\<close>, where
  \<^verbatim>\<open>renderFrame\<close> on the same handle returns \<open>null\<close> before any native call.
\<close>

theorem render_update_after_free_calls_engine:
  "ctx (render_mem (snd (bare_mpv_render_free idle_responses 1 rendering_world)) 1) = None \<and>
   buffer (render_mem (snd (bare_mpv_render_free idle_responses 1 rendering_world)) 1) = None \<and>
   calls (snd (bare_mpv_render_update idle_responses 1
                 (snd (bare_mpv_render_free idle_responses 1 rendering_world)))) =
     calls (snd (bare_mpv_render_free idle_responses 1 rendering_world))
       @ [Mpv_render_context_update None] \<and>
   calls (snd (bare_mpv_render_frame idle_responses 1
                 (snd (bare_mpv_render_free idle_responses 1 rendering_world)))) =
     calls (snd (bare_mpv_render_free idle_responses 1 rendering_world))"
  by (simp add: bare_mpv_render_update_def bare_mpv_render_free_def bare_mpv_render_frame_def
      native_def rendering_world_eq idle_responses_def)

lemma render_frame_dimensions:
  "dimensions (snd (bare_mpv_render_frame orc handle w)) a = dimensions w a"
  by (simp add: bare_mpv_render_frame_def js_create_arraybuffer_def native_def dimensions_def
      Let_def split: prod.split)

lemma render_update_dimensions:
  "dimensions (snd (bare_mpv_render_update orc handle w)) a = dimensions w a"
  by (simp add: bare_mpv_render_update_def native_def dimensions_def Let_def)

lemma render_free_dimensions:
  "dimensions (snd (bare_mpv_render_free orc handle w)) a = dimensions w a"
  by (simp add: bare_mpv_render_free_def native_def dimensions_def Let_def)

lemma render_step_dimensions: "dimensions (render_step s w) a = dimensions w a"
proof (cases s)
  case (fields op orc handle)
  then show ?thesis
    by (cases op)
      (simp_all add: render_frame_dimensions render_update_dimensions render_free_dimensions)
qed

text \<open>
  Claim C9. Whatever sequence of \<^verbatim>\<open>renderFrame\<close>, \<^verbatim>\<open>renderUpdate\<close> and \<^verbatim>\<open>renderFree\<close>
  calls runs, on whatever handles and with whatever answers of the libraries, the width
  and the height recorded in every render handle, and so the size of its pixel buffer,
  stay what they were.
\<close>

theorem render_dimensions_immutable:
  "width (render_mem (render_run ss w) a) = width (render_mem w a) \<and>
   height (render_mem (render_run ss w) a) = height (render_mem w a) \<and>
   buffer_size (width (render_mem (render_run ss w) a)) (height (render_mem (render_run ss w) a)) =
     buffer_size (width (render_mem w a)) (height (render_mem w a))"
proof -
  have "dimensions (render_run ss w) a = dimensions w a"
  proof (induction ss arbitrary: w)
    case Nil
    show ?case by simp
  next
    case (Cons s ss)
    have "dimensions (render_run (s # ss) w) a = dimensions (render_step s w) a"
      using Cons.IH [of "render_step s w"] by simp
    then show ?case by (simp add: render_step_dimensions)
  qed
  then show ?thesis by (simp add: dimensions_def)
qed

lemma render_frame_success:
  assumes "js_get_callback_info_err orc = 0" and "js_get_arraybuffer_info_err orc = 0"
    and "ctx (render_mem w handle) = Some c" and "buffer (render_mem w handle) = Some b"
    and "0 \<le> fst (mpv_render_context_render_ret orc)"
    and "js_create_arraybuffer_err orc = 0"
  shows "fst (bare_mpv_render_frame orc handle w) =
           Some (if js_create_typedarray_err orc \<noteq> 0
                 then Js_arraybuffer (next_arraybuffer w)
                 else Js_uint8array (next_arraybuffer w)
                        (buffer_size (width (render_mem w handle)) (height (render_mem w handle))))"
    and "next_arraybuffer (snd (bare_mpv_render_frame orc handle w)) = Suc (next_arraybuffer w)"
    and "frame_mem (snd (bare_mpv_render_frame orc handle w)) =
           (frame_mem w)(next_arraybuffer w :=
              memcpy_from (snd (mpv_render_context_render_ret orc))
                (buffer_size (width (render_mem w handle)) (height (render_mem w handle))))"
    and "c_heap (snd (bare_mpv_render_frame orc handle w)) =
           (c_heap w)(b := snd (mpv_render_context_render_ret orc))"
    and "render_mem (snd (bare_mpv_render_frame orc handle w)) = render_mem w"
  using assms
  by (simp_all add: bare_mpv_render_frame_def js_create_arraybuffer_def native_def Let_def
      case_prod_beta)

lemma render_frame_no_output_buffer:
  assumes "js_get_callback_info_err orc = 0" and "js_get_arraybuffer_info_err orc = 0"
    and "ctx (render_mem w handle) = Some c" and "buffer (render_mem w handle) = Some b"
    and "0 \<le> fst (mpv_render_context_render_ret orc)"
    and "js_create_arraybuffer_err orc \<noteq> 0"
  shows "fst (bare_mpv_render_frame orc handle w) = None"
    and "frame_mem (snd (bare_mpv_render_frame orc handle w)) = frame_mem w"
    and "next_arraybuffer (snd (bare_mpv_render_frame orc handle w)) = next_arraybuffer w"
    and "pending_exception (snd (bare_mpv_render_frame orc handle w)) = pending_exception w"
  using assms
  by (simp_all add: bare_mpv_render_frame_def js_create_arraybuffer_def native_def Let_def
      case_prod_beta)

text \<open>
  Claim C5, as the code has it. Take a delivered render handle with a live context and a
  live pixel buffer, and a native render call that succeeds.

  If the host cannot create the output array buffer, \<^verbatim>\<open>renderFrame\<close> returns \<^verbatim>\<open>NULL\<close>:
  no buffer is handed out and no array buffer changes.

  If the host creates it and \<open>width * height * 4\<close> fits a non-negative \<^verbatim>\<open>int\<close>, then
  \<^verbatim>\<open>renderFrame\<close> returns a \<^verbatim>\<open>Uint8Array\<close> of exactly \<open>width * height * 4\<close> bytes over
  the array buffer just created (that array buffer itself when the host cannot make the
  view), an identity no earlier call was given. The array buffer holds exactly
  \<open>width * height * 4\<close> bytes, those of the pixel buffer as the engine left it, and no
  other array buffer changes. A second successful \<^verbatim>\<open>renderFrame\<close> on the handle
  overwrites the pixel buffer and returns the next array buffer with the new frame; the
  first one still holds the first frame, and a store into either returned buffer leaves
  the other as it is.
\<close>

theorem render_frame_fresh_copy:
  fixes orc orc' :: responses and w :: world and handle c b :: addr
  defines "w1 \<equiv> snd (bare_mpv_render_frame orc handle w)"
    and "w2 \<equiv> snd (bare_mpv_render_frame orc' handle (snd (bare_mpv_render_frame orc handle w)))"
    and "nbytes \<equiv> nat (width (render_mem w handle) * height (render_mem w handle) * 4)"
    and "fresh \<equiv> next_arraybuffer w"
  assumes "js_get_callback_info_err orc = 0" and "js_get_arraybuffer_info_err orc = 0"
    and "ctx (render_mem w handle) = Some c" and "buffer (render_mem w handle) = Some b"
    and "0 \<le> fst (mpv_render_context_render_ret orc)"
  shows "(js_create_arraybuffer_err orc \<noteq> 0 \<longrightarrow>
        fst (bare_mpv_render_frame orc handle w) = None \<and> frame_mem w1 = frame_mem w) \<and>
     (js_create_arraybuffer_err orc = 0 \<and>
      0 \<le> width (render_mem w handle) * height (render_mem w handle) * 4 \<and>
      width (render_mem w handle) * height (render_mem w handle) * 4 < 2 ^ 31 \<longrightarrow>
        fst (bare_mpv_render_frame orc handle w) =
          Some (if js_create_typedarray_err orc \<noteq> 0 then Js_arraybuffer fresh
                else Js_uint8array fresh nbytes) \<and>
        length (frame_mem w1 fresh) = nbytes \<and>
        frame_mem w1 fresh = memcpy_from (c_heap w1 b) nbytes \<and>
        c_heap w1 b = snd (mpv_render_context_render_ret orc) \<and>
        (\<forall>a. a \<noteq> fresh \<longrightarrow> frame_mem w1 a = frame_mem w a) \<and>
        (js_get_callback_info_err orc' = 0 \<and> js_get_arraybuffer_info_err orc' = 0 \<and>
         0 \<le> fst (mpv_render_context_render_ret orc') \<and> js_create_arraybuffer_err orc' = 0 \<longrightarrow>
           fst (bare_mpv_render_frame orc' handle w1) =
             Some (if js_create_typedarray_err orc' \<noteq> 0 then Js_arraybuffer (Suc fresh)
                   else Js_uint8array (Suc fresh) nbytes) \<and>
           c_heap w2 b = snd (mpv_render_context_render_ret orc') \<and>
           frame_mem w2 (Suc fresh) = memcpy_from (c_heap w2 b) nbytes \<and>
           frame_mem w2 fresh = frame_mem w1 fresh \<and>
           (\<forall>bytes. ((frame_mem w2)(fresh := bytes)) (Suc fresh) = frame_mem w2 (Suc fresh)) \<and>
           (\<forall>bytes. ((frame_mem w2)(Suc fresh := bytes)) fresh = frame_mem w2 fresh)))"
proof (intro conjI impI)
  assume "js_create_arraybuffer_err orc \<noteq> 0"
  then show "fst (bare_mpv_render_frame orc handle w) = None" "frame_mem w1 = frame_mem w"
    using assms(5-9) render_frame_no_output_buffer [of orc w handle c b]
    by (simp_all add: w1_def)
next
  assume ok: "js_create_arraybuffer_err orc = 0 \<and>
      0 \<le> width (render_mem w handle) * height (render_mem w handle) * 4 \<and>
      width (render_mem w handle) * height (render_mem w handle) * 4 < 2 ^ 31"
  then have size: "buffer_size (width (render_mem w handle)) (height (render_mem w handle)) = nbytes"
    by (simp add: nbytes_def buffer_size_exact)
  note first = render_frame_success [of orc w handle c b, folded w1_def fresh_def, unfolded size]
  show ret1: "fst (bare_mpv_render_frame orc handle w) =
      Some (if js_create_typedarray_err orc \<noteq> 0 then Js_arraybuffer fresh
            else Js_uint8array fresh nbytes)"
    using assms(5-9) ok first(1) by simp
  have mem1: "frame_mem w1 =
      (frame_mem w)(fresh := memcpy_from (snd (mpv_render_context_render_ret orc)) nbytes)"
    using assms(5-9) ok first(3) by simp
  have heap1: "c_heap w1 = (c_heap w)(b := snd (mpv_render_context_render_ret orc))"
    using assms(5-9) ok first(4) by simp
  have next1: "next_arraybuffer w1 = Suc fresh"
    using assms(5-9) ok first(2) by simp
  have rmem1: "render_mem w1 = render_mem w"
    using assms(5-9) ok first(5) by simp
  show "length (frame_mem w1 fresh) = nbytes"
    by (simp add: mem1 length_memcpy_from)
  show "frame_mem w1 fresh = memcpy_from (c_heap w1 b) nbytes"
    by (simp add: mem1 heap1)
  show "c_heap w1 b = snd (mpv_render_context_render_ret orc)"
    by (simp add: heap1)
  show "\<forall>a. a \<noteq> fresh \<longrightarrow> frame_mem w1 a = frame_mem w a"
    by (simp add: mem1)
  assume again: "js_get_callback_info_err orc' = 0 \<and> js_get_arraybuffer_info_err orc' = 0 \<and>
      0 \<le> fst (mpv_render_context_render_ret orc') \<and> js_create_arraybuffer_err orc' = 0"
  have live: "ctx (render_mem w1 handle) = Some c" "buffer (render_mem w1 handle) = Some b"
    using assms(7,8) by (simp_all add: rmem1)
  note second = render_frame_success [of orc' w1 handle c b, unfolded rmem1 next1 size]
  have w2: "w2 = snd (bare_mpv_render_frame orc' handle w1)"
    by (simp add: w2_def w1_def)
  show "fst (bare_mpv_render_frame orc' handle w1) =
      Some (if js_create_typedarray_err orc' \<noteq> 0 then Js_arraybuffer (Suc fresh)
            else Js_uint8array (Suc fresh) nbytes)"
    using again live second(1) by (simp add: rmem1)
  have mem2: "frame_mem w2 =
      (frame_mem w1)(Suc fresh := memcpy_from (snd (mpv_render_context_render_ret orc')) nbytes)"
    using again live second(3) by (simp add: w2 rmem1)
  have heap2: "c_heap w2 = (c_heap w1)(b := snd (mpv_render_context_render_ret orc'))"
    using again live second(4) by (simp add: w2 rmem1)
  show "c_heap w2 b = snd (mpv_render_context_render_ret orc')"
    by (simp add: heap2)
  show "frame_mem w2 (Suc fresh) = memcpy_from (c_heap w2 b) nbytes"
    by (simp add: mem2 heap2)
  show "frame_mem w2 fresh = frame_mem w1 fresh"
    by (simp add: mem2)
  show "\<forall>bytes. ((frame_mem w2)(fresh := bytes)) (Suc fresh) = frame_mem w2 (Suc fresh)"
    by simp
  show "\<forall>bytes. ((frame_mem w2)(Suc fresh := bytes)) fresh = frame_mem w2 fresh"
    by simp
qed

theorem render_frame_fresh_copy_witness:
  "js_get_callback_info_err idle_responses = 0 \<and>
   js_get_arraybuffer_info_err idle_responses = 0 \<and>
   ctx (render_mem rendering_world 1) = Some 2 \<and>
   buffer (render_mem rendering_world 1) = Some 3 \<and>
   0 \<le> fst (mpv_render_context_render_ret idle_responses) \<and>
   js_create_arraybuffer_err idle_responses = 0 \<and>
   0 \<le> width (render_mem rendering_world 1) * height (render_mem rendering_world 1) * 4 \<and>
   width (render_mem rendering_world 1) * height (render_mem rendering_world 1) * 4 < 2 ^ 31 \<and>
   fst (bare_mpv_render_frame idle_responses 1 rendering_world) = Some (Js_uint8array 2 8) \<and>
   length (frame_mem (snd (bare_mpv_render_frame idle_responses 1 rendering_world)) 2) = 8 \<and>
   c_heap (snd (bare_mpv_render_frame idle_responses 1 rendering_world)) 3 = (\<lambda>i. 0) \<and>
   fst (bare_mpv_render_frame
          (idle_responses\<lparr>mpv_render_context_render_ret := (0, \<lambda>i. 255)\<rparr>) 1
          (snd (bare_mpv_render_frame idle_responses 1 rendering_world))) =
     Some (Js_uint8array 3 8) \<and>
   c_heap
     (snd (bare_mpv_render_frame
             (idle_responses\<lparr>mpv_render_context_render_ret := (0, \<lambda>i. 255)\<rparr>) 1
             (snd (bare_mpv_render_frame idle_responses 1 rendering_world)))) 3 = (\<lambda>i. 255) \<and>
   frame_mem
     (snd (bare_mpv_render_frame
             (idle_responses\<lparr>mpv_render_context_render_ret := (0, \<lambda>i. 255)\<rparr>) 1
             (snd (bare_mpv_render_frame idle_responses 1 rendering_world)))) 2 =
     frame_mem (snd (bare_mpv_render_frame idle_responses 1 rendering_world)) 2 \<and>
   js_create_arraybuffer_err (idle_responses\<lparr>js_create_arraybuffer_err := - 1\<rparr>) \<noteq> 0 \<and>
   fst (bare_mpv_render_frame (idle_responses\<lparr>js_create_arraybuffer_err := - 1\<rparr>) 1
          rendering_world) = None"
  using render_frame_fresh_copy
      [of idle_responses rendering_world 1 2 3
          "idle_responses\<lparr>mpv_render_context_render_ret := (0, \<lambda>i. 255)\<rparr>"]
    render_frame_fresh_copy
      [of "idle_responses\<lparr>js_create_arraybuffer_err := - 1\<rparr>" rendering_world 1 2 3
          idle_responses]
  by (simp add: idle_responses_simps rendering_world_simps length_memcpy_from)

text \<open>
  Claim C5, as it is worded, fails at two inputs. On render handle \<open>1\<close> of
  \<open>rendering_world\<close>, live and rendered with status \<open>0\<close>, a host that cannot create the
  output array buffer makes \<^verbatim>\<open>renderFrame\<close> return \<^verbatim>\<open>NULL\<close> after the render call: no
  buffer. On render handle \<open>1\<close> of \<open>overflowing_world\<close>, live, \<open>42949673\<close> wide and \<open>50\<close>
  high, a successful \<^verbatim>\<open>renderFrame\<close> returns \<open>8\<close> bytes, where \<open>width * height * 4\<close> is
  \<open>8589934600\<close>.
\<close>

theorem render_frame_no_buffer_or_short_buffer:
  "js_get_callback_info_err (idle_responses\<lparr>js_create_arraybuffer_err := - 1\<rparr>) = 0 \<and>
   js_get_arraybuffer_info_err (idle_responses\<lparr>js_create_arraybuffer_err := - 1\<rparr>) = 0 \<and>
   ctx (render_mem rendering_world 1) = Some 2 \<and>
   buffer (render_mem rendering_world 1) = Some 3 \<and>
   0 \<le> fst (mpv_render_context_render_ret (idle_responses\<lparr>js_create_arraybuffer_err := - 1\<rparr>)) \<and>
   fst (bare_mpv_render_frame (idle_responses\<lparr>js_create_arraybuffer_err := - 1\<rparr>) 1
          rendering_world) = None \<and>
   js_get_callback_info_err idle_responses = 0 \<and>
   js_get_arraybuffer_info_err idle_responses = 0 \<and>
   ctx (render_mem overflowing_world 1) = Some 2 \<and>
   buffer (render_mem overflowing_world 1) = Some 3 \<and>
   width (render_mem overflowing_world 1) = 42949673 \<and>
   height (render_mem overflowing_world 1) = 50 \<and>
   0 \<le> fst (mpv_render_context_render_ret idle_responses) \<and>
   fst (bare_mpv_render_frame idle_responses 1 overflowing_world) = Some (Js_uint8array 2 8) \<and>
   length (frame_mem (snd (bare_mpv_render_frame idle_responses 1 overflowing_world)) 2) = 8 \<and>
   nat (42949673 * 50 * 4) = 8589934600"
proof -
  have size: "buffer_size 42949673 50 = 8"
    by (simp add: buffer_size_def int32_def size_t_of_int_def)
  have "fst (bare_mpv_render_frame (idle_responses\<lparr>js_create_arraybuffer_err := - 1\<rparr>) 1
          rendering_world) = None"
    by (rule render_frame_no_output_buffer(1) [of _ _ _ 2 3])
      (simp_all add: idle_responses_simps rendering_world_simps)
  moreover have "fst (bare_mpv_render_frame idle_responses 1 overflowing_world) =
      Some (Js_uint8array 2 8)"
    using render_frame_success(1) [of idle_responses overflowing_world 1 2 3]
    by (simp add: idle_responses_simps overflowing_world_simps size)
  moreover have "length (frame_mem (snd (bare_mpv_render_frame idle_responses 1 overflowing_world)) 2) = 8"
    using render_frame_success(3) [of idle_responses overflowing_world 1 2 3]
    by (simp add: idle_responses_simps overflowing_world_simps size length_memcpy_from)
  ultimately show ?thesis
    by (simp add: idle_responses_simps rendering_world_simps overflowing_world_simps)
qed

subsection \<open>Raising and returning\<close>








end
